theory Spec2Isabelle
  imports Main "HOL-Library.Word"
begin

unbundle bit_operations_syntax

section \<open>The icanhazqrcode worker: validation and response assembly\<close>

text \<open>
  A shallow embedding of \<^verbatim>\<open>src/index.ts\<close>. JavaScript strings are sequences of UTF-16
  code units; the model uses HOL strings, one \<^typ>\<open>char\<close> per code unit, which covers the
  code units 0 to 255 (every literal of the program is ASCII). A JavaScript number is
  modelled as \<^typ>\<open>int option\<close>: \<open>None\<close> is \<^verbatim>\<open>NaN\<close>, \<open>Some n\<close> the integer \<open>n\<close>. The
  program only compares numbers with bounds below 41, so the rounding of very long
  digit strings to a double (or to Infinity, which \<^verbatim>\<open>Number.isInteger\<close> refuses like NaN)
  never changes a verdict, and negative zero is \<open>Some 0\<close>.
\<close>

subsection \<open>Constants\<close>

definition MAX_DATA_LENGTH :: nat where "MAX_DATA_LENGTH = 2048"
definition DEFAULT_SCALE :: int where "DEFAULT_SCALE = 8"
definition MAX_SCALE :: int where "MAX_SCALE = 40"
definition DEFAULT_BORDER :: int where "DEFAULT_BORDER = 4"
definition MAX_BORDER :: int where "MAX_BORDER = 20"
definition DEFAULT_ERROR_CORRECTION :: string where "DEFAULT_ERROR_CORRECTION = ''M''"
definition ALLOWED_ERROR_CORRECTION :: "string set" where
  "ALLOWED_ERROR_CORRECTION = {''L'', ''M'', ''Q'', ''H''}"

subsection \<open>Built-ins of the language\<close>

text \<open>The decimal digits, as \<^verbatim>\<open>\d\<close> in a regular expression and as \<^verbatim>\<open>parseInt\<close> read them.\<close>

definition isDigit :: "char \<Rightarrow> bool" where
  "isDigit c = (c \<in> set ''0123456789'')"

definition digitValue :: "char \<Rightarrow> int" where
  "digitValue c = int (of_char c) - 48"

text \<open>
  White space and line terminators of ECMAScript among the code units below 256:
  TAB, LF, VT, FF, CR, SP and NBSP.
\<close>

definition isWhiteSpace :: "char \<Rightarrow> bool" where
  "isWhiteSpace c = (c \<in> set [CHR 0x09, CHR 0x0A, CHR 0x0B, CHR 0x0C, CHR 0x0D, CHR 0x20, CHR 0xA0])"

definition trim :: "string \<Rightarrow> string" where
  "trim s = rev (dropWhile isWhiteSpace (rev (dropWhile isWhiteSpace s)))"

text \<open>
  \<^verbatim>\<open>String.prototype.toUpperCase\<close>. ASCII and Latin-1 lower-case letters become their
  capitals and sharp s becomes \<^verbatim>\<open>SS\<close>. The micro sign and y with diaeresis have upper-case
  forms beyond code unit 255, which a \<^typ>\<open>char\<close> cannot hold; the model leaves them as
  they are (neither form is an ASCII letter).
\<close>

definition lowerLetters :: string where
  "lowerLetters = ''abcdefghijklmnopqrstuvwxyz'' @
     [CHR 0xE0, CHR 0xE1, CHR 0xE2, CHR 0xE3, CHR 0xE4, CHR 0xE5, CHR 0xE6, CHR 0xE7,
      CHR 0xE8, CHR 0xE9, CHR 0xEA, CHR 0xEB, CHR 0xEC, CHR 0xED, CHR 0xEE, CHR 0xEF,
      CHR 0xF0, CHR 0xF1, CHR 0xF2, CHR 0xF3, CHR 0xF4, CHR 0xF5, CHR 0xF6,
      CHR 0xF8, CHR 0xF9, CHR 0xFA, CHR 0xFB, CHR 0xFC, CHR 0xFD, CHR 0xFE]"

definition upperLetters :: string where
  "upperLetters = ''ABCDEFGHIJKLMNOPQRSTUVWXYZ'' @
     [CHR 0xC0, CHR 0xC1, CHR 0xC2, CHR 0xC3, CHR 0xC4, CHR 0xC5, CHR 0xC6, CHR 0xC7,
      CHR 0xC8, CHR 0xC9, CHR 0xCA, CHR 0xCB, CHR 0xCC, CHR 0xCD, CHR 0xCE, CHR 0xCF,
      CHR 0xD0, CHR 0xD1, CHR 0xD2, CHR 0xD3, CHR 0xD4, CHR 0xD5, CHR 0xD6,
      CHR 0xD8, CHR 0xD9, CHR 0xDA, CHR 0xDB, CHR 0xDC, CHR 0xDD, CHR 0xDE]"

definition upperUnits :: "char \<Rightarrow> string" where
  "upperUnits c =
     (case map_of (zip lowerLetters upperLetters) c of
        Some u \<Rightarrow> [u]
      | None \<Rightarrow> if c = CHR 0xDF then ''SS'' else [c])"

definition toUpperCase :: "string \<Rightarrow> string" where
  "toUpperCase s = concat (map upperUnits s)"

text \<open>
  \<^verbatim>\<open>Number.parseInt(input, 10)\<close>: skip leading white space, read an optional sign, then
  the longest run of decimal digits; what follows the digits is ignored and a string
  with no digit there yields NaN. With radix 10 a \<^verbatim>\<open>0x\<close> prefix is not stripped.
\<close>

definition digitsValue :: "string \<Rightarrow> int" where
  "digitsValue Z = foldl (\<lambda>acc c. 10 * acc + digitValue c) 0 Z"

definition parseInt :: "string \<Rightarrow> int option" where
  "parseInt input =
     (let S = dropWhile isWhiteSpace input;
          sign = (if S \<noteq> [] \<and> hd S = CHR ''-'' then - 1 else 1);
          S' = (if S \<noteq> [] \<and> (hd S = CHR ''+'' \<or> hd S = CHR ''-'') then tl S else S);
          Z = takeWhile isDigit S'
      in if Z = [] then None else Some (sign * digitsValue Z))"

text \<open>\<^verbatim>\<open>String(n)\<close> of an integer below \<open>10^21\<close> in magnitude: its decimal numeral.\<close>

fun natDigits :: "nat \<Rightarrow> string" where
  "natDigits n =
     (if n < 10 then [''0123456789'' ! n]
      else natDigits (n div 10) @ [''0123456789'' ! (n mod 10)])"

declare natDigits.simps [simp del]

definition intToString :: "int \<Rightarrow> string" where
  "intToString n = (if n < 0 then CHR ''-'' # natDigits (nat (- n)) else natDigits (nat n))"

subsection \<open>Option Normalizer\<close>

record ('n, 'e) opts =
  scale :: 'n
  border :: 'n
  ecc :: 'e

type_synonym raw_options = "(string option, string option) opts"
type_synonym options = "(int, string) opts"

definition parseIntOrDefault :: "string option \<Rightarrow> int \<Rightarrow> int option" where
  "parseIntOrDefault input fallback =
     (case input of
        None \<Rightarrow> Some fallback
      | Some s \<Rightarrow> if trim s = [] then Some fallback else parseInt s)"

text \<open>\<^verbatim>\<open>Number.isInteger\<close> is false of NaN only, in this model of numbers.\<close>

definition Number_isInteger :: "int option \<Rightarrow> bool" where
  "Number_isInteger x = (x \<noteq> None)"

definition scaleMessage :: string where
  "scaleMessage = ''scale must be an integer between 1 and '' @ intToString MAX_SCALE"

definition borderMessage :: string where
  "borderMessage = ''border must be an integer between 0 and '' @ intToString MAX_BORDER"

definition eccMessage :: string where
  "eccMessage = ''ecc must be one of: L, M, Q, H''"

definition parseOptions :: "raw_options \<Rightarrow> string + options" where
  "parseOptions input =
     (let scale = parseIntOrDefault (scale input) DEFAULT_SCALE;
          border = parseIntOrDefault (border input) DEFAULT_BORDER;
          eccRaw = toUpperCase (case ecc input of None \<Rightarrow> DEFAULT_ERROR_CORRECTION | Some e \<Rightarrow> e)
      in if \<not> Number_isInteger scale \<or> the scale \<le> 0 \<or> the scale > MAX_SCALE
         then Inl scaleMessage
         else if \<not> Number_isInteger border \<or> the border < 0 \<or> the border > MAX_BORDER
         then Inl borderMessage
         else if eccRaw \<notin> ALLOWED_ERROR_CORRECTION
         then Inl eccMessage
         else Inr \<lparr>scale = the scale, border = the border, ecc = eccRaw\<rparr>)"

subsection \<open>JSON values and responses\<close>

text \<open>
  A JavaScript value as \<^verbatim>\<open>JSON.parse\<close> yields it and \<^verbatim>\<open>JSON.stringify\<close> reads it. A number
  is carried as the text \<^verbatim>\<open>String(n)\<close> gives for it (\<^verbatim>\<open>10\<close> for 10, \<^verbatim>\<open>3.5\<close> for 3.5), which
  is all the program does with a number of a request body; an object is the list of its
  own properties in insertion order.
\<close>

datatype jsvalue =
    JNull
  | JBool bool
  | JNum string
  | JStr string
  | JArr "jsvalue list"
  | JObj "(string \<times> jsvalue) list"

text \<open>\<^verbatim>\<open>typeof v\<close>, for the values above.\<close>

fun typeof :: "jsvalue \<Rightarrow> string" where
  "typeof JNull = ''object''"
| "typeof (JBool b) = ''boolean''"
| "typeof (JNum n) = ''number''"
| "typeof (JStr s) = ''string''"
| "typeof (JArr xs) = ''object''"
| "typeof (JObj fs) = ''object''"

text \<open>Truthiness: \<^verbatim>\<open>null\<close>, \<^verbatim>\<open>false\<close>, zero and the empty string are falsy.\<close>

fun truthy :: "jsvalue \<Rightarrow> bool" where
  "truthy JNull = False"
| "truthy (JBool b) = b"
| "truthy (JNum n) = (n \<noteq> ''0'')"
| "truthy (JStr s) = (s \<noteq> [])"
| "truthy (JArr xs) = True"
| "truthy (JObj fs) = True"

text \<open>
  Reading a property: of an object, its own property of that name; an array has none of
  the names the program reads (\<^verbatim>\<open>data\<close>, \<^verbatim>\<open>scale\<close>, \<^verbatim>\<open>border\<close>, \<^verbatim>\<open>ecc\<close>). \<open>None\<close> is
  \<^verbatim>\<open>undefined\<close>.
\<close>

fun property :: "jsvalue \<Rightarrow> string \<Rightarrow> jsvalue option" where
  "property (JObj fs) name = map_of fs name"
| "property v name = None"

text \<open>\<^verbatim>\<open>String(v)\<close> for a number or a string, the two cases in which the program calls it.\<close>

fun String :: "jsvalue \<Rightarrow> string" where
  "String (JNum n) = n"
| "String (JStr s) = s"
| "String v = []"

definition hexDigit :: "nat \<Rightarrow> char" where
  "hexDigit n = ''0123456789abcdef'' ! n"

text \<open>
  \<^verbatim>\<open>JSON.stringify\<close>: a string is quoted, with the quote, the backslash and the control
  characters escaped.
\<close>

definition jsonEscape :: "char \<Rightarrow> string" where
  "jsonEscape c =
     (if c = CHR 0x22 then [CHR 0x5C, CHR 0x22]
      else if c = CHR 0x5C then [CHR 0x5C, CHR 0x5C]
      else if c = CHR 0x08 then [CHR 0x5C, CHR ''b'']
      else if c = CHR 0x0C then [CHR 0x5C, CHR ''f'']
      else if c = CHR 0x0A then [CHR 0x5C, CHR ''n'']
      else if c = CHR 0x0D then [CHR 0x5C, CHR ''r'']
      else if c = CHR 0x09 then [CHR 0x5C, CHR ''t'']
      else if (of_char c :: nat) < 32
      then [CHR 0x5C, CHR ''u'', CHR ''0'', CHR ''0'',
            hexDigit (of_char c div 16), hexDigit (of_char c mod 16)]
      else [c])"

definition quoteJSONString :: "string \<Rightarrow> string" where
  "quoteJSONString s = [CHR 0x22] @ concat (map jsonEscape s) @ [CHR 0x22]"

fun join :: "string \<Rightarrow> string list \<Rightarrow> string" where
  "join sep [] = []"
| "join sep [x] = x"
| "join sep (x # y # ys) = x @ sep @ join sep (y # ys)"

fun JSON_stringify :: "jsvalue \<Rightarrow> string" where
  "JSON_stringify JNull = ''null''"
| "JSON_stringify (JBool b) = (if b then ''true'' else ''false'')"
| "JSON_stringify (JNum n) = n"
| "JSON_stringify (JStr s) = quoteJSONString s"
| "JSON_stringify (JArr xs) = ''['' @ join '','' (map JSON_stringify xs) @ '']''"
| "JSON_stringify (JObj fs) =
     ''{'' @ join '','' (map (\<lambda>kv. quoteJSONString (fst kv) @ '':'' @ JSON_stringify (snd kv)) fs) @ ''}''"

text \<open>
  A response: the status, the headers given to the constructor, and the body, which is
  text or a byte array.
\<close>

datatype body = TextBody string | ByteBody "8 word list"

record response =
  status :: nat
  headers :: "(string \<times> string) list"
  body :: body

text \<open>\<^verbatim>\<open>json(value, status = 200)\<close>; \<open>None\<close> is the omitted argument.\<close>

definition json :: "jsvalue \<Rightarrow> nat option \<Rightarrow> response" where
  "json v st =
     \<lparr>status = (case st of None \<Rightarrow> 200 | Some n \<Rightarrow> n),
      headers = [(''content-type'', ''application/json; charset=utf-8''),
                 (''cache-control'', ''no-store'')],
      body = TextBody (JSON_stringify v)\<rparr>"

definition badRequest :: "string \<Rightarrow> response" where
  "badRequest message = json (JObj [(''error'', JStr message)]) (Some 400)"

definition healthResponse :: response where
  "healthResponse =
     json (JObj
       [(''service'', JStr ''icanhazqrcode''),
        (''endpoints'', JArr
          [JStr ''GET / (landing page with QR form + optional ad slot)'',
           JStr ''GET /robots.txt'',
           JStr ''GET /sitemap.xml'',
           JStr ''GET /llms.txt'',
           JStr ''GET /qr?data=<text>&scale=8&border=4&ecc=M'',
           JStr ''POST /qr (text/plain or application/json {data, scale, border, ecc})''])])
       None"

subsection \<open>Ad Configuration Sanitizer and landing page\<close>

text \<open>
  Truthiness of a \<^verbatim>\<open>string | null | undefined\<close>: \<open>None\<close> and the empty string are falsy.
\<close>

definition truthyString :: "string option \<Rightarrow> bool" where
  "truthyString v = (case v of None \<Rightarrow> False | Some s \<Rightarrow> s \<noteq> [])"

record env =
  ADSENSE_CLIENT :: "string option"
  ADSENSE_SLOT :: "string option"

text \<open>
  The two patterns, \<^verbatim>\<open>/^ca-pub-\d{10,20}$/\<close> and \<^verbatim>\<open>/^\d{5,20}$/\<close>. Neither has the
  multiline flag, so both anchors bind to the ends of the whole string.
\<close>

definition matchesClientPattern :: "string \<Rightarrow> bool" where
  "matchesClientPattern v =
     (take 7 v = ''ca-pub-'' \<and> 10 \<le> length (drop 7 v) \<and> length (drop 7 v) \<le> 20
      \<and> list_all isDigit (drop 7 v))"

definition matchesSlotPattern :: "string \<Rightarrow> bool" where
  "matchesSlotPattern v = (5 \<le> length v \<and> length v \<le> 20 \<and> list_all isDigit v)"

definition safeAdClient :: "string option \<Rightarrow> string option" where
  "safeAdClient v =
     (if \<not> truthyString v then None
      else if matchesClientPattern (the v) then v else None)"

definition safeAdSlot :: "string option \<Rightarrow> string option" where
  "safeAdSlot v =
     (if \<not> truthyString v then None
      else if matchesSlotPattern (the v) then v else None)"

definition adsenseScriptMarkup :: "string \<Rightarrow> string" where
  \<open>adsenseScriptMarkup adClient =
     ''<script async src="https://pagead2.googlesyndication.com/pagead/js/adsbygoogle.js?client=''
     @ adClient @ ''" crossorigin="anonymous"></script>''\<close>

definition adsenseMetaMarkup :: "string \<Rightarrow> string" where
  \<open>adsenseMetaMarkup adClient =
     ''<meta name="google-adsense-account" content="'' @ adClient @ ''">''\<close>

definition adUnitMarkup :: "string \<Rightarrow> string \<Rightarrow> string" where
  \<open>adUnitMarkup adClient adSlot =
     ''<ins class="adsbygoogle"'' @ [CHR 0x0A] @
     ''     style="display:block"'' @ [CHR 0x0A] @
     ''     data-ad-client="'' @ adClient @ ''"'' @ [CHR 0x0A] @
     ''     data-ad-slot="'' @ adSlot @ ''"'' @ [CHR 0x0A] @
     ''     data-ad-format="auto"'' @ [CHR 0x0A] @
     ''     data-full-width-responsive="true"></ins>'' @ [CHR 0x0A] @
     ''  <script>(adsbygoogle=window.adsbygoogle||[]).push({});</script>''\<close>

definition fallbackAdMarkup :: string where
  \<open>fallbackAdMarkup =
     ''<div class="ad-fallback">'' @ [CHR 0x0A] @
     ''    Ads are not configured yet. Replace this with your sponsor link, donation URL, or merch CTA until ad inventory is live.''
     @ [CHR 0x0A] @
     ''  </div>''\<close>

record url =
  protocol :: string
  host :: string
  pathname :: string
  searchParams :: "(string \<times> string) list"

text \<open>
  The landing page is one fixed HTML template with holes. The model keeps what the
  function puts into the holes that depend on its arguments: \<^verbatim>\<open>${adMeta}\<close> and
  \<^verbatim>\<open>${adScript}\<close> in the head, \<^verbatim>\<open>${adMarkup}\<close> in the aside of the body, and
  \<^verbatim>\<open>${siteUrl}\<close>. The text between the holes is constant and holds no ad script.
\<close>

record landing =
  adMeta :: string
  adScript :: string
  adMarkup :: string
  siteUrl :: string

definition landingPage :: "url \<Rightarrow> env \<Rightarrow> landing" where
  "landingPage u e =
     (let adClient = safeAdClient (ADSENSE_CLIENT e);
          adSlot = safeAdSlot (ADSENSE_SLOT e);
          adEnabled = (truthyString adClient \<and> truthyString adSlot)
      in \<lparr>adMeta = (if truthyString adClient then adsenseMetaMarkup (the adClient) else []),
          adScript = (if truthyString adClient then adsenseScriptMarkup (the adClient) else []),
          adMarkup = (if adEnabled then adUnitMarkup (the adClient) (the adSlot)
                      else fallbackAdMarkup),
          siteUrl = protocol u @ ''//'' @ host u\<rparr>)"

subsection \<open>Response Builder for images\<close>

text \<open>
  The codec is the library \<^verbatim>\<open>qrcode-generator\<close>: the calls \<^verbatim>\<open>qrcode(0, ecc)\<close>,
  \<^verbatim>\<open>addData\<close>, \<^verbatim>\<open>make\<close> and \<^verbatim>\<open>createSvgTag\<close> of the \<^verbatim>\<open>try\<close> block are one function of the
  payload, the level, the cell size and the margin, which returns the SVG text or throws
  (\<open>Inl\<close>, with whatever the library threw). Every function that can reach the codec
  returns, with its response, the list of the codec calls it made, in order.
\<close>

type_synonym codec_call = "string \<times> string \<times> int \<times> int"
type_synonym 'x codec = "string \<Rightarrow> string \<Rightarrow> int \<Rightarrow> int \<Rightarrow> 'x + string"

text \<open>
  \<^verbatim>\<open>simpleHash\<close>. \<^verbatim>\<open>hash ^= c\<close> and \<^verbatim>\<open>Math.imul\<close> work on 32-bit integers and
  \<^verbatim>\<open>hash >>> 0\<close> reads the result as unsigned, so the loop is arithmetic on
  \<^typ>\<open>32 word\<close>; \<^verbatim>\<open>toString(16)\<close> writes lower-case hexadecimal with no leading zero.
\<close>

fun toString16 :: "nat \<Rightarrow> string" where
  "toString16 n =
     (if n < 16 then [hexDigit n]
      else toString16 (n div 16) @ [hexDigit (n mod 16)])"

declare toString16.simps [simp del]

definition charCode :: "char \<Rightarrow> 32 word" where
  "charCode c = of_nat (of_char c)"

definition simpleHash :: "string \<Rightarrow> string" where
  "simpleHash v =
     toString16 (unat (foldl (\<lambda>hash c. (hash XOR charCode c) * 16777619) (2166136261 :: 32 word) v))"

text \<open>
  \<^verbatim>\<open>new TextEncoder().encode\<close>: UTF-8. A code unit below 128 is one byte, one from 128
  to 255 is two.
\<close>

definition utf8Unit :: "char \<Rightarrow> 8 word list" where
  "utf8Unit c =
     (let n = (of_char c :: nat)
      in if n < 128 then [of_nat n]
         else [of_nat (192 + n div 64), of_nat (128 + n mod 64)])"

definition encode :: "string \<Rightarrow> 8 word list" where
  "encode s = concat (map utf8Unit s)"

definition tooLongMessage :: string where
  "tooLongMessage =
     ''Data too long. Max length is '' @ intToString (int MAX_DATA_LENGTH) @ '' characters.''"

definition encodeFailureMessage :: string where
  "encodeFailureMessage = ''Unable to encode QR for the provided input and options''"

definition buildQrResponse :: "'x codec \<Rightarrow> string \<Rightarrow> options \<Rightarrow> response \<times> codec_call list" where
  \<open>buildQrResponse codec data options =
     (if length data > MAX_DATA_LENGTH then (badRequest tooLongMessage, [])
      else
        (case codec data (ecc options) (scale options) (border options) of
           Inl thrown \<Rightarrow>
             (badRequest encodeFailureMessage,
              [(data, ecc options, scale options, border options)])
         | Inr svg \<Rightarrow>
             (let body = encode svg;
                  etag = ''W/"'' @ simpleHash svg @ ''"''
              in (\<lparr>status = 200,
                   headers =
                     [(''content-type'', ''image/svg+xml; charset=utf-8''),
                      (''content-length'', intToString (int (length body))),
                      (''cache-control'', ''public, max-age=300''),
                      (''etag'', etag),
                      (''x-content-type-options'', ''nosniff'')],
                   body = ByteBody body\<rparr>,
                  [(data, ecc options, scale options, border options)]))))\<close>

subsection \<open>Input Extractor\<close>

text \<open>
  A request: its method, its URL, the value of its \<^verbatim>\<open>content-type\<close> header (\<open>None\<close> when
  the header is absent) and the text of its body. \<^verbatim>\<open>searchParams.get\<close> is the first value
  of that name, \<open>None\<close> for \<^verbatim>\<open>null\<close>.
\<close>

record request =
  httpMethod :: string
  url :: url
  contentType :: "string option"
  bodyText :: string

definition get :: "url \<Rightarrow> string \<Rightarrow> string option" where
  "get u name = map_of (searchParams u) name"

fun startsWith :: "string \<Rightarrow> string \<Rightarrow> bool" where
  "startsWith s [] = True"
| "startsWith [] (c # cs) = False"
| "startsWith (x # xs) (c # cs) = (x = c \<and> startsWith xs cs)"

fun includesString :: "string \<Rightarrow> string \<Rightarrow> bool" where
  "includesString [] needle = (needle = [])"
| "includesString (x # xs) needle = (startsWith (x # xs) needle \<or> includesString xs needle)"

definition qrFromQuery :: "'x codec \<Rightarrow> url \<Rightarrow> response \<times> codec_call list" where
  "qrFromQuery codec u =
     (let data = get u ''data''
      in if \<not> truthyString data
         then (badRequest ''Missing required query parameter: data'', [])
         else
           (case parseOptions \<lparr>scale = get u ''scale'', border = get u ''border'',
                               ecc = get u ''ecc''\<rparr> of
              Inl error \<Rightarrow> (badRequest error, [])
            | Inr options \<Rightarrow> buildQrResponse codec (the data) options))"

text \<open>
  The fields of a JSON body, as the \<^verbatim>\<open>typeof\<close> tests of the source select them: the
  payload is a string-typed \<^verbatim>\<open>data\<close>, an option is overridden by a number or a string
  (\<^verbatim>\<open>scale\<close>, \<^verbatim>\<open>border\<close>) or by a string (\<^verbatim>\<open>ecc\<close>).
\<close>

definition hasType :: "jsvalue option \<Rightarrow> string \<Rightarrow> bool" where
  "hasType v t = (case v of None \<Rightarrow> t = ''undefined'' | Some x \<Rightarrow> typeof x = t)"

text \<open>
  \<^verbatim>\<open>request.json()\<close> is the runtime's parser, a parameter of the model: it yields the
  parsed value or throws (\<open>None\<close>).
\<close>

definition qrFromBody ::
  "'x codec \<Rightarrow> (string \<Rightarrow> jsvalue option) \<Rightarrow> request \<Rightarrow> url \<Rightarrow> response \<times> codec_call list" where
  "qrFromBody codec parseJson req u =
     (let contentType = (if truthyString (contentType req) then the (contentType req) else []);
          scale0 = get u ''scale'';
          border0 = get u ''border'';
          ecc0 = get u ''ecc''
      in if includesString contentType ''application/json'' then
           (case parseJson (bodyText req) of
              None \<Rightarrow> (badRequest ''Invalid JSON body'', [])
            | Some payload \<Rightarrow>
                if \<not> truthy payload \<or> typeof payload \<noteq> ''object''
                then (badRequest ''JSON body must be an object'', [])
                else
                  (let data = (if hasType (property payload ''data'') ''string''
                               then Some (String (the (property payload ''data''))) else None);
                       scale = (if hasType (property payload ''scale'') ''number''
                                   \<or> hasType (property payload ''scale'') ''string''
                                then Some (String (the (property payload ''scale''))) else scale0);
                       border = (if hasType (property payload ''border'') ''number''
                                    \<or> hasType (property payload ''border'') ''string''
                                 then Some (String (the (property payload ''border''))) else border0);
                       ecc = (if hasType (property payload ''ecc'') ''string''
                              then Some (String (the (property payload ''ecc''))) else ecc0)
                   in if \<not> truthyString data
                      then (badRequest ''Missing data in request body'', [])
                      else
                        (case parseOptions \<lparr>scale = scale, border = border, ecc = ecc\<rparr> of
                           Inl error \<Rightarrow> (badRequest error, [])
                         | Inr options \<Rightarrow> buildQrResponse codec (the data) options)))
         else
           (let data = Some (bodyText req)
            in if \<not> truthyString data
               then (badRequest ''Missing data in request body'', [])
               else
                 (case parseOptions \<lparr>scale = scale0, border = border0, ecc = ecc0\<rparr> of
                    Inl error \<Rightarrow> (badRequest error, [])
                  | Inr options \<Rightarrow> buildQrResponse codec (the data) options)))"

subsection \<open>Router\<close>

text \<open>
  What \<^verbatim>\<open>fetch\<close> answers: the landing page, one of the three static documents (fixed text
  around the origin of the request, kept by its origin only), or a response.
\<close>

datatype reply =
    Landing landing
  | RobotsTxt string
  | SitemapXml string
  | LlmsTxt string
  | Http response

definition notFound :: response where
  \<open>notFound =
     json (JObj
       [(''error'', JStr ''Not Found''),
        (''hint'', JStr (''Use GET /qr?data=hello or POST /qr with raw text or JSON {"data":"hello"}''))])
       (Some 404)\<close>

definition origin :: "url \<Rightarrow> string" where
  "origin u = protocol u @ ''//'' @ host u"

definition fetch ::
  "'x codec \<Rightarrow> (string \<Rightarrow> jsvalue option) \<Rightarrow> request \<Rightarrow> env \<Rightarrow> reply \<times> codec_call list" where
  "fetch codec parseJson req e =
     (if httpMethod req = ''GET'' \<and> pathname (url req) = ''/''
      then (Landing (landingPage (url req) e), [])
      else if httpMethod req = ''GET'' \<and> pathname (url req) = ''/health''
      then (Http healthResponse, [])
      else if httpMethod req = ''GET'' \<and> pathname (url req) = ''/robots.txt''
      then (RobotsTxt (origin (url req)), [])
      else if httpMethod req = ''GET'' \<and> pathname (url req) = ''/sitemap.xml''
      then (SitemapXml (origin (url req)), [])
      else if httpMethod req = ''GET'' \<and> pathname (url req) = ''/llms.txt''
      then (LlmsTxt (origin (url req)), [])
      else if httpMethod req = ''GET'' \<and> pathname (url req) = ''/qr''
      then map_prod Http id (qrFromQuery codec (url req))
      else if httpMethod req = ''POST'' \<and> pathname (url req) = ''/qr''
      then map_prod Http id (qrFromBody codec parseJson req (url req))
      else (Http notFound, []))"

subsection \<open>The checks of the Option Normalizer, field by field\<close>

text \<open>
  The three conditions \<open>parseOptions\<close> tests, each as a predicate of its own field: the
  number that \<open>parseIntOrDefault\<close> reads from the field lies in the range, and the level,
  upper-cased, is one of L, M, Q, H. They say what the code accepts, not what the
  specification calls valid.
\<close>

definition scaleCheckPasses :: "string option \<Rightarrow> bool" where
  "scaleCheckPasses raw =
     (case parseIntOrDefault raw 8 of None \<Rightarrow> False | Some n \<Rightarrow> 1 \<le> n \<and> n \<le> 40)"

definition borderCheckPasses :: "string option \<Rightarrow> bool" where
  "borderCheckPasses raw =
     (case parseIntOrDefault raw 4 of None \<Rightarrow> False | Some n \<Rightarrow> 0 \<le> n \<and> n \<le> 20)"

definition eccCheckPasses :: "string option \<Rightarrow> bool" where
  "eccCheckPasses raw =
     (case raw of None \<Rightarrow> True | Some e \<Rightarrow> toUpperCase e \<in> {''L'', ''M'', ''Q'', ''H''})"

subsection \<open>The specification's own notions\<close>

text \<open>
  A valid option as the specification words it. An absent or blank field takes the
  default. Otherwise \<^verbatim>\<open>scale\<close> and \<^verbatim>\<open>border\<close> must be a base-10 integer, that is an optional
  sign and one or more decimal digits with nothing else (a float, hex notation or digits
  with trailing garbage is not one), with \<open>1 \<le> scale \<le> 40\<close>, respectively
  \<open>0 \<le> border \<le> 20\<close>. A level that is present must be one of L, M, Q, H in either case.
\<close>

definition spec_blank :: "string \<Rightarrow> bool" where
  "spec_blank s = list_all (\<lambda>c. c \<in> set [CHR 0x09, CHR 0x0A, CHR 0x0B, CHR 0x0C, CHR 0x0D, CHR 0x20, CHR 0xA0]) s"

definition spec_decimal :: "string \<Rightarrow> int option" where
  "spec_decimal ds =
     (if ds \<noteq> [] \<and> list_all (\<lambda>c. c \<in> set ''0123456789'') ds
      then Some (foldl (\<lambda>acc c. 10 * acc + (int (of_char c) - 48)) 0 ds)
      else None)"

definition spec_integer :: "string \<Rightarrow> int option" where
  "spec_integer s =
     (case s of
        [] \<Rightarrow> None
      | c # cs \<Rightarrow>
          if c = CHR ''-'' then map_option uminus (spec_decimal cs)
          else if c = CHR ''+'' then spec_decimal cs
          else spec_decimal (c # cs))"

definition spec_inRange :: "int \<Rightarrow> int \<Rightarrow> string option \<Rightarrow> bool" where
  "spec_inRange lo hi raw =
     (case raw of
        None \<Rightarrow> True
      | Some s \<Rightarrow>
          if spec_blank s then True
          else (case spec_integer s of None \<Rightarrow> False | Some n \<Rightarrow> lo \<le> n \<and> n \<le> hi))"

definition spec_scaleValid :: "string option \<Rightarrow> bool" where
  "spec_scaleValid raw = spec_inRange 1 40 raw"

definition spec_borderValid :: "string option \<Rightarrow> bool" where
  "spec_borderValid raw = spec_inRange 0 20 raw"

definition spec_eccValid :: "string option \<Rightarrow> bool" where
  "spec_eccValid raw =
     (case raw of
        None \<Rightarrow> True
      | Some e \<Rightarrow> e \<in> {''l'', ''L'', ''m'', ''M'', ''q'', ''Q'', ''h'', ''H''})"

text \<open>
  The Input Extractor as the specification words it. A field of the body supplies an
  option when it has the right type: a number or a string for \<^verbatim>\<open>scale\<close> and \<^verbatim>\<open>border\<close>, a
  string for \<^verbatim>\<open>ecc\<close> and for the payload \<^verbatim>\<open>data\<close>. A value the body supplies has
  priority over the query parameter of the same name, which is the fallback.
\<close>

definition spec_numericField :: "jsvalue option \<Rightarrow> string option" where
  "spec_numericField v =
     (case v of Some (JNum n) \<Rightarrow> Some n | Some (JStr s) \<Rightarrow> Some s | _ \<Rightarrow> None)"

definition spec_stringField :: "jsvalue option \<Rightarrow> string option" where
  "spec_stringField v = (case v of Some (JStr s) \<Rightarrow> Some s | _ \<Rightarrow> None)"

definition spec_priority :: "string option \<Rightarrow> string option \<Rightarrow> string option" where
  "spec_priority bodyValue queryValue =
     (case bodyValue of Some x \<Rightarrow> Some x | None \<Rightarrow> queryValue)"

definition spec_queryOptions :: "url \<Rightarrow> raw_options" where
  "spec_queryOptions u = \<lparr>scale = get u ''scale'', border = get u ''border'', ecc = get u ''ecc''\<rparr>"

definition spec_bodyOptions :: "jsvalue \<Rightarrow> url \<Rightarrow> raw_options" where
  "spec_bodyOptions payload u =
     \<lparr>scale = spec_priority (spec_numericField (property payload ''scale'')) (get u ''scale''),
      border = spec_priority (spec_numericField (property payload ''border'')) (get u ''border''),
      ecc = spec_priority (spec_stringField (property payload ''ecc'')) (get u ''ecc'')\<rparr>"

text \<open>An object, for the body check: an object or an array, as \<^verbatim>\<open>typeof\<close> sees them.\<close>

fun spec_isObject :: "jsvalue \<Rightarrow> bool" where
  "spec_isObject (JObj fs) = True"
| "spec_isObject (JArr xs) = True"
| "spec_isObject v = False"

text \<open>
  What a request to the encoding endpoint yields: a message, or the payload with the raw
  options. GET reads the query; POST with a JSON content type reads the parsed body; any
  other POST takes the body text as the payload.
\<close>

definition spec_extract ::
  "(string \<Rightarrow> jsvalue option) \<Rightarrow> request \<Rightarrow> string + string \<times> raw_options" where
  "spec_extract parseJson req =
     (if httpMethod req = ''GET'' then
        (case get (url req) ''data'' of
           None \<Rightarrow> Inl ''Missing required query parameter: data''
         | Some d \<Rightarrow>
             if d = [] then Inl ''Missing required query parameter: data''
             else Inr (d, spec_queryOptions (url req)))
      else if includesString (case contentType req of None \<Rightarrow> [] | Some c \<Rightarrow> c)
                ''application/json'' then
        (case parseJson (bodyText req) of
           None \<Rightarrow> Inl ''Invalid JSON body''
         | Some payload \<Rightarrow>
             if \<not> spec_isObject payload then Inl ''JSON body must be an object''
             else
               (case spec_stringField (property payload ''data'') of
                  None \<Rightarrow> Inl ''Missing data in request body''
                | Some d \<Rightarrow>
                    if d = [] then Inl ''Missing data in request body''
                    else Inr (d, spec_bodyOptions payload (url req))))
      else if bodyText req = [] then Inl ''Missing data in request body''
      else Inr (bodyText req, spec_queryOptions (url req)))"

text \<open>
  The pipeline behind the extractor: a message becomes a 400 response with no codec
  call; a payload goes through the Option Normalizer and then to the Response Builder.
\<close>

definition spec_pipeline ::
  "'x codec \<Rightarrow> string + string \<times> raw_options \<Rightarrow> response \<times> codec_call list" where
  "spec_pipeline codec x =
     (case x of
        Inl message \<Rightarrow> (badRequest message, [])
      | Inr (d, raw) \<Rightarrow>
          (case parseOptions raw of
             Inl message \<Rightarrow> (badRequest message, [])
           | Inr options \<Rightarrow> buildQrResponse codec d options))"






subsection \<open>Sample collaborators\<close>

text \<open>
  A codec that always succeeds with a small SVG text, one that always throws, a JSON
  parser that knows one document, and an empty advertising configuration.
\<close>

definition svgCodec :: "string codec" where
  "svgCodec d level cellSize margin = Inr ''<svg/>''"

definition throwingCodec :: "string codec" where
  "throwingCodec d level cellSize margin = Inl ''code length overflow''"


definition sampleDocument :: string where
  \<open>sampleDocument = ''{"data":"hi","scale":10}''\<close>

definition sampleParse :: "string \<Rightarrow> jsvalue option" where
  "sampleParse s =
     (if s = sampleDocument then Some (JObj [(''data'', JStr ''hi''), (''scale'', JNum ''10'')])
      else if s = ''{}'' then Some (JObj [])
      else None)"

definition noAds :: env where
  "noAds = \<lparr>ADSENSE_CLIENT = None, ADSENSE_SLOT = None\<rparr>"

definition qrUrl :: "(string \<times> string) list \<Rightarrow> url" where
  "qrUrl params =
     \<lparr>protocol = ''https:'', host = ''icanhazqrcode.example'', pathname = ''/qr'',
      searchParams = params\<rparr>"

text \<open>Sample requests to the encoding endpoint, and payloads at the length limit.\<close>

definition getRequest :: "(string \<times> string) list \<Rightarrow> request" where
  "getRequest params =
     \<lparr>httpMethod = ''GET'', url = qrUrl params, contentType = None, bodyText = []\<rparr>"

definition postRequest :: "(string \<times> string) list \<Rightarrow> string option \<Rightarrow> string \<Rightarrow> request" where
  "postRequest params ct b =
     \<lparr>httpMethod = ''POST'', url = qrUrl params, contentType = ct, bodyText = b\<rparr>"

definition emptyDataParse :: "string \<Rightarrow> jsvalue option" where
  \<open>emptyDataParse s = (if s = ''{"data":""}'' then Some (JObj [(''data'', JStr [])]) else None)\<close>



text \<open>The landing page's URL, and a configuration with a valid client and no slot.\<close>

definition homeUrl :: url where
  "homeUrl = \<lparr>protocol = ''https:'', host = ''icanhazqrcode.example'', pathname = ''/'',
              searchParams = []\<rparr>"

definition clientOnly :: env where
  "clientOnly = \<lparr>ADSENSE_CLIENT = Some ''ca-pub-1234567890123456'', ADSENSE_SLOT = None\<rparr>"

section \<open>Properties\<close>

subsection \<open>Texts of the messages\<close>

lemma scaleMessage_text: "scaleMessage = ''scale must be an integer between 1 and 40''"
  by (simp add: scaleMessage_def intToString_def MAX_SCALE_def natDigits.simps)

lemma borderMessage_text: "borderMessage = ''border must be an integer between 0 and 20''"
  by (simp add: borderMessage_def intToString_def MAX_BORDER_def natDigits.simps)


subsection \<open>Option Normalizer\<close>

lemmas option_defs =
  parseOptions_def parseIntOrDefault_def parseInt_def trim_def isWhiteSpace_def isDigit_def
  digitsValue_def digitValue_def Number_isInteger_def toUpperCase_def upperUnits_def
  lowerLetters_def upperLetters_def DEFAULT_SCALE_def DEFAULT_BORDER_def
  DEFAULT_ERROR_CORRECTION_def MAX_SCALE_def MAX_BORDER_def ALLOWED_ERROR_CORRECTION_def

lemmas check_defs = scaleCheckPasses_def borderCheckPasses_def eccCheckPasses_def

lemma toUpperCase_default: "toUpperCase DEFAULT_ERROR_CORRECTION = ''M''"
  by (simp add: toUpperCase_def upperUnits_def lowerLetters_def upperLetters_def
      DEFAULT_ERROR_CORRECTION_def)

text \<open>The three checks of \<open>parseOptions\<close> in their order, over the field predicates.\<close>

lemma parseOptions_checks:
  "parseOptions input =
     (if \<not> scaleCheckPasses (scale input) then Inl scaleMessage
      else if \<not> borderCheckPasses (border input) then Inl borderMessage
      else if \<not> eccCheckPasses (ecc input) then Inl eccMessage
      else Inr \<lparr>scale = the (parseIntOrDefault (scale input) 8),
                border = the (parseIntOrDefault (border input) 4),
                ecc = (case ecc input of None \<Rightarrow> ''M'' | Some e \<Rightarrow> toUpperCase e)\<rparr>)"
  by (auto simp add: parseOptions_def Let_def check_defs Number_isInteger_def
      toUpperCase_default DEFAULT_SCALE_def DEFAULT_BORDER_def MAX_SCALE_def MAX_BORDER_def
      ALLOWED_ERROR_CORRECTION_def split: option.splits)

lemma upperUnits_nonempty: "upperUnits c \<noteq> []"
  by (simp add: upperUnits_def split: option.splits)

lemma upperUnits_level:
  "upperUnits c = [u] \<Longrightarrow> u \<in> set ''LMQH'' \<Longrightarrow> c = u \<or> (c, u) \<in> set (zip ''lmqh'' ''LMQH'')"
  by (auto simp add: upperUnits_def lowerLetters_def upperLetters_def
      split: option.splits if_splits)

lemma toUpperCase_single:
  assumes "toUpperCase e = [u]"
  shows "\<exists>c. e = [c] \<and> upperUnits c = [u]"
proof (cases e)
  case Nil
  with assms show ?thesis by (simp add: toUpperCase_def)
next
  case (Cons c cs)
  with assms have eq: "upperUnits c @ toUpperCase cs = [u]"
    by (simp add: toUpperCase_def)
  have "upperUnits c \<noteq> []" by (rule upperUnits_nonempty)
  with eq have head: "upperUnits c = [u]" and rest: "toUpperCase cs = []"
    by (auto simp add: append_eq_Cons_conv)
  from rest have "cs = []"
    by (cases cs) (auto simp add: toUpperCase_def upperUnits_nonempty)
  with head Cons show ?thesis by simp
qed

text \<open>Only the four letters, in either case, upper-case to a level.\<close>

lemma toUpperCase_allowed_iff:
  "toUpperCase e \<in> {''L'', ''M'', ''Q'', ''H''}
     \<longleftrightarrow> e \<in> {''l'', ''L'', ''m'', ''M'', ''q'', ''Q'', ''h'', ''H''}"
proof
  assume "toUpperCase e \<in> {''L'', ''M'', ''Q'', ''H''}"
  then obtain u where u: "u \<in> set ''LMQH''" and e: "toUpperCase e = [u]" by auto
  from toUpperCase_single [OF e] obtain c where c: "e = [c]" "upperUnits c = [u]" by blast
  from upperUnits_level [OF c(2) u] u c(1)
  show "e \<in> {''l'', ''L'', ''m'', ''M'', ''q'', ''Q'', ''h'', ''H''}" by auto
next
  assume "e \<in> {''l'', ''L'', ''m'', ''M'', ''q'', ''Q'', ''h'', ''H''}"
  then show "toUpperCase e \<in> {''L'', ''M'', ''Q'', ''H''}"
    by (auto simp add: toUpperCase_def upperUnits_def lowerLetters_def upperLetters_def)
qed

text \<open>
  C2. The claim: a scale that is not an integer numeral (a float such as \<^verbatim>\<open>3.5\<close>, digits
  with trailing garbage) is rejected with the scale message. The code reads the text with
  \<^verbatim>\<open>parseInt\<close>, which stops at the first character that is not a digit, so the check
  \<^verbatim>\<open>Number.isInteger\<close> that follows only sees the integer prefix: \<^verbatim>\<open>3.5\<close> is accepted as
  scale 3 and \<^verbatim>\<open>12abc\<close> as scale 12.
\<close>

theorem scale_non_integer_text_accepted:
  "parseOptions \<lparr>scale = Some ''3.5'', border = None, ecc = None\<rparr>
     = Inr \<lparr>scale = 3, border = 4, ecc = ''M''\<rparr>
   \<and> parseOptions \<lparr>scale = Some ''12abc'', border = None, ecc = None\<rparr>
     = Inr \<lparr>scale = 12, border = 4, ecc = ''M''\<rparr>"
  by (simp add: option_defs)

theorem scale_non_integer_text_accepted_witness:
  "(\<exists>options. parseOptions \<lparr>scale = Some ''3.5'', border = None, ecc = None\<rparr> = Inr options
        \<and> scale options = 3)
   \<and> parseOptions \<lparr>scale = Some ''12abc'', border = None, ecc = None\<rparr>
        \<noteq> Inl ''scale must be an integer between 1 and 40''"
  using scale_non_integer_text_accepted by simp

text \<open>
  C4. The level is upper-cased: \<^verbatim>\<open>l\<close>, \<^verbatim>\<open>L\<close>, \<^verbatim>\<open>m\<close>, \<^verbatim>\<open>M\<close>, \<^verbatim>\<open>q\<close>, \<^verbatim>\<open>Q\<close>, \<^verbatim>\<open>h\<close>, \<^verbatim>\<open>H\<close> yield
  their level; an absent parameter yields M; every other text, the empty one and \<^verbatim>\<open>X\<close>
  among them, is rejected, never defaulted. The first part is for a scale and a border
  that pass their checks, which come first: there the rejection carries the message of
  the level (the left side is the level of the result, or its message). The second part
  holds whatever scale and border are.
\<close>

theorem ecc_normalised_or_rejected:
  "(scaleCheckPasses (scale input) \<and> borderCheckPasses (border input) \<longrightarrow>
      map_sum id ecc (parseOptions input) =
        (case ecc input of
           None \<Rightarrow> Inr ''M''
         | Some e \<Rightarrow>
             if e = ''l'' \<or> e = ''L'' then Inr ''L''
             else if e = ''m'' \<or> e = ''M'' then Inr ''M''
             else if e = ''q'' \<or> e = ''Q'' then Inr ''Q''
             else if e = ''h'' \<or> e = ''H'' then Inr ''H''
             else Inl ''ecc must be one of: L, M, Q, H''))
   \<and> (\<forall>e. ecc input = Some e \<and> e \<notin> {''l'', ''L'', ''m'', ''M'', ''q'', ''Q'', ''h'', ''H''}
          \<longrightarrow> (\<exists>message. parseOptions input = Inl message))"
proof (intro conjI impI allI)
  assume valid: "scaleCheckPasses (scale input) \<and> borderCheckPasses (border input)"
  show "map_sum id ecc (parseOptions input) =
        (case ecc input of
           None \<Rightarrow> Inr ''M''
         | Some e \<Rightarrow>
             if e = ''l'' \<or> e = ''L'' then Inr ''L''
             else if e = ''m'' \<or> e = ''M'' then Inr ''M''
             else if e = ''q'' \<or> e = ''Q'' then Inr ''Q''
             else if e = ''h'' \<or> e = ''H'' then Inr ''H''
             else Inl ''ecc must be one of: L, M, Q, H'')"
  proof (cases "ecc input")
    case None
    with valid show ?thesis
      by (simp add: parseOptions_checks eccCheckPasses_def)
  next
    case (Some e)
    show ?thesis
    proof (cases "e \<in> {''l'', ''L'', ''m'', ''M'', ''q'', ''Q'', ''h'', ''H''}")
      case True
      then have "eccCheckPasses (Some e)"
        by (simp only: eccCheckPasses_def option.case toUpperCase_allowed_iff)
      with valid Some True show ?thesis
        by (auto simp add: parseOptions_checks toUpperCase_def upperUnits_def lowerLetters_def
            upperLetters_def)
    next
      case False
      then have "\<not> eccCheckPasses (Some e)"
        by (simp only: eccCheckPasses_def option.case toUpperCase_allowed_iff not_False_eq_True)
      with valid Some False show ?thesis
        by (simp add: parseOptions_checks eccMessage_def)
    qed
  qed
next
  fix e
  assume "ecc input = Some e \<and> e \<notin> {''l'', ''L'', ''m'', ''M'', ''q'', ''Q'', ''h'', ''H''}"
  then have "\<not> eccCheckPasses (ecc input)"
    by (simp only: eccCheckPasses_def option.case toUpperCase_allowed_iff not_False_eq_True)
  then show "\<exists>message. parseOptions input = Inl message"
    by (simp add: parseOptions_checks)
qed

theorem ecc_normalised_or_rejected_witness:
  "scaleCheckPasses None \<and> borderCheckPasses (Some ''0'')
   \<and> map_sum id ecc (parseOptions \<lparr>scale = None, border = Some ''0'', ecc = Some []\<rparr>)
       = Inl ''ecc must be one of: L, M, Q, H''
   \<and> map_sum id ecc (parseOptions \<lparr>scale = None, border = Some ''0'', ecc = Some ''X''\<rparr>)
       = Inl ''ecc must be one of: L, M, Q, H''
   \<and> map_sum id ecc (parseOptions \<lparr>scale = None, border = Some ''0'', ecc = Some ''q''\<rparr>)
       = Inr ''Q''
   \<and> map_sum id ecc (parseOptions \<lparr>scale = None, border = Some ''0'', ecc = None\<rparr>)
       = Inr ''M''
   \<and> (\<exists>message. parseOptions \<lparr>scale = Some ''0'', border = None, ecc = Some ''X''\<rparr> = Inl message)"
proof -
  note t = ecc_normalised_or_rejected
  have s: "scaleCheckPasses None" and b: "borderCheckPasses (Some ''0'')"
    by (simp_all add: check_defs option_defs)
  have last: "\<exists>message. parseOptions \<lparr>scale = Some ''0'', border = None, ecc = Some ''X''\<rparr> = Inl message"
    using t [of "\<lparr>scale = Some ''0'', border = None, ecc = Some ''X''\<rparr>"] by simp
  show ?thesis
    using s b last
      t [of "\<lparr>scale = None, border = Some ''0'', ecc = Some []\<rparr>"]
      t [of "\<lparr>scale = None, border = Some ''0'', ecc = Some ''X''\<rparr>"]
      t [of "\<lparr>scale = None, border = Some ''0'', ecc = Some ''q''\<rparr>"]
      t [of "\<lparr>scale = None, border = Some ''0'', ecc = None\<rparr>"]
    by simp
qed

text \<open>
  C9. The claim: when more than one field is invalid, the one message is that of the first
  failing field, in the order scale, border, level. The checks do run in that order and
  one message is returned, but the checks of scale and border see only the integer that
  \<^verbatim>\<open>parseInt\<close> reads at the front of the text (the defect of C2). With scale \<^verbatim>\<open>3.5\<close>, border
  \<^verbatim>\<open>21\<close> and level \<^verbatim>\<open>X\<close>, all three invalid, the scale passes and the message is the
  border's. With a blank scale (valid, it takes the default), border \<^verbatim>\<open>2.9\<close> and level
  \<^verbatim>\<open>X\<close>, the border passes and the message is the level's.
\<close>

theorem first_failing_field_skipped:
  "\<not> spec_scaleValid (Some ''3.5'') \<and> \<not> spec_borderValid (Some ''21'')
   \<and> \<not> spec_eccValid (Some ''X'')
   \<and> parseOptions \<lparr>scale = Some ''3.5'', border = Some ''21'', ecc = Some ''X''\<rparr>
       = Inl ''border must be an integer between 0 and 20''
   \<and> spec_scaleValid (Some ''  '') \<and> \<not> spec_borderValid (Some ''2.9'')
   \<and> parseOptions \<lparr>scale = Some ''  '', border = Some ''2.9'', ecc = Some ''X''\<rparr>
       = Inl ''ecc must be one of: L, M, Q, H''"
  by (simp add: spec_scaleValid_def spec_borderValid_def spec_eccValid_def spec_inRange_def
      spec_blank_def spec_integer_def spec_decimal_def option_defs borderMessage_text
      eccMessage_def)

theorem first_failing_field_skipped_witness:
  "parseOptions \<lparr>scale = Some ''3.5'', border = Some ''21'', ecc = Some ''X''\<rparr>
       \<noteq> Inl ''scale must be an integer between 1 and 40''
   \<and> parseOptions \<lparr>scale = Some ''  '', border = Some ''2.9'', ecc = Some ''X''\<rparr>
       \<noteq> Inl ''border must be an integer between 0 and 20''"
  using first_failing_field_skipped by simp

subsection \<open>The handlers follow the extractor\<close>

lemma not_object_iff: "(\<not> truthy v \<or> typeof v \<noteq> ''object'') \<longleftrightarrow> \<not> spec_isObject v"
  by (cases v) simp_all

lemma numeric_override:
  "(if hasType v ''number'' \<or> hasType v ''string'' then Some (String (the v)) else q)
     = spec_priority (spec_numericField v) q"
  by (cases v; cases "the v")
     (simp_all add: hasType_def spec_priority_def spec_numericField_def)

lemma string_override:
  "(if hasType v ''string'' then Some (String (the v)) else q)
     = spec_priority (spec_stringField v) q"
  by (cases v; cases "the v")
     (simp_all add: hasType_def spec_priority_def spec_stringField_def)

lemma string_field:
  "(if hasType v ''string'' then Some (String (the v)) else None) = spec_stringField v"
  using string_override [of v None]
  by (simp add: spec_priority_def split: option.splits)

lemma spec_priority_None: "spec_priority x None = x"
  by (simp add: spec_priority_def split: option.splits)

lemma content_type_text:
  "(if truthyString c then the c else []) = (case c of None \<Rightarrow> [] | Some t \<Rightarrow> t)"
  by (simp add: truthyString_def split: option.splits)

lemma truthyString_Some: "truthyString (Some d) \<longleftrightarrow> d \<noteq> []"
  by (simp add: truthyString_def)

lemma truthyString_None: "\<not> truthyString None"
  by (simp add: truthyString_def)

lemma qrFromQuery_pipeline:
  assumes "httpMethod req = ''GET''"
  shows "qrFromQuery codec (url req) = spec_pipeline codec (spec_extract parseJson req)"
proof (cases "get (url req) ''data''")
  case None
  with assms show ?thesis
    by (simp add: qrFromQuery_def spec_pipeline_def spec_extract_def truthyString_None)
next
  case (Some d)
  with assms show ?thesis
    by (simp add: qrFromQuery_def spec_pipeline_def spec_extract_def spec_queryOptions_def
        truthyString_Some cong: sum.case_cong)
qed

lemma qrFromBody_steps:
  "qrFromBody codec parseJson req u =
     (if includesString (case contentType req of None \<Rightarrow> [] | Some t \<Rightarrow> t) ''application/json''
      then
        (case parseJson (bodyText req) of
           None \<Rightarrow> (badRequest ''Invalid JSON body'', [])
         | Some payload \<Rightarrow>
             if \<not> spec_isObject payload then (badRequest ''JSON body must be an object'', [])
             else if \<not> truthyString (spec_stringField (property payload ''data''))
             then (badRequest ''Missing data in request body'', [])
             else
               (case parseOptions (spec_bodyOptions payload u) of
                  Inl error \<Rightarrow> (badRequest error, [])
                | Inr options \<Rightarrow>
                    buildQrResponse codec (the (spec_stringField (property payload ''data'')))
                      options))
      else if \<not> truthyString (Some (bodyText req))
      then (badRequest ''Missing data in request body'', [])
      else
        (case parseOptions (spec_queryOptions u) of
           Inl error \<Rightarrow> (badRequest error, [])
         | Inr options \<Rightarrow> buildQrResponse codec (the (Some (bodyText req))) options))"
  unfolding qrFromBody_def Let_def numeric_override string_override spec_priority_None
    content_type_text not_object_iff spec_bodyOptions_def spec_queryOptions_def
  by (rule refl)

lemma qrFromBody_pipeline:
  assumes "httpMethod req = ''POST''"
  shows "qrFromBody codec parseJson req (url req)
           = spec_pipeline codec (spec_extract parseJson req)"
proof -
  have notGet: "httpMethod req \<noteq> ''GET''" using assms by simp
  show ?thesis
  proof (cases "includesString (case contentType req of None \<Rightarrow> [] | Some t \<Rightarrow> t)
                  ''application/json''")
    case False
    with notGet show ?thesis
      by (simp only: qrFromBody_steps spec_extract_def spec_pipeline_def if_False if_True
          truthyString_Some option.sel)
         (simp cong: sum.case_cong)
  next
    case json: True
    show ?thesis
    proof (cases "parseJson (bodyText req)")
      case None
      with notGet json show ?thesis
        by (simp only: qrFromBody_steps spec_extract_def spec_pipeline_def if_False if_True
            option.case sum.case)
    next
      case (Some payload)
      show ?thesis
      proof (cases "spec_stringField (property payload ''data'')")
        case None
        with notGet json Some show ?thesis
          by (simp only: qrFromBody_steps spec_extract_def spec_pipeline_def if_False if_True
              option.case sum.case truthyString_None)
             (simp cong: sum.case_cong)
      next
        case (Some d)
        with notGet json \<open>parseJson (bodyText req) = Some payload\<close> show ?thesis
          by (simp only: qrFromBody_steps spec_extract_def spec_pipeline_def if_False if_True
              option.case sum.case truthyString_Some option.sel)
             (simp cong: sum.case_cong)
      qed
    qed
  qed
qed

lemma encoding_endpoint_pipeline:
  assumes "pathname (url req) = ''/qr''"
    and "httpMethod req = ''GET'' \<or> httpMethod req = ''POST''"
  shows "fetch codec parseJson req e =
     map_prod Http id (spec_pipeline codec (spec_extract parseJson req))"
proof -
  from assms(2) show ?thesis
  proof
    assume get: "httpMethod req = ''GET''"
    with assms(1) show ?thesis
      by (simp add: fetch_def qrFromQuery_pipeline [OF get, of codec parseJson])
  next
    assume post: "httpMethod req = ''POST''"
    with assms(1) show ?thesis
      by (simp add: fetch_def qrFromBody_pipeline [OF post, of codec parseJson])
  qed
qed

subsection \<open>Response Builder and router\<close>

lemma badRequest_status: "status (badRequest m) = 400"
  by (simp add: badRequest_def json_def)


lemma buildQrResponse_calls:
  "length d \<le> MAX_DATA_LENGTH \<Longrightarrow>
     snd (buildQrResponse codec d options) = [(d, ecc options, scale options, border options)]"
  by (simp add: buildQrResponse_def Let_def split: sum.splits)

lemma default_options:
  "parseOptions \<lparr>scale = None, border = None, ecc = None\<rparr> = Inr \<lparr>scale = 8, border = 4, ecc = ''M''\<rparr>"
  by (simp add: option_defs)

lemma spec_extract_nonempty:
  assumes "spec_extract parseJson req = Inr (d, raw)"
  shows "d \<noteq> []"
proof (cases "httpMethod req = ''GET''")
  case True
  with assms show ?thesis
    by (cases "get (url req) ''data''") (auto simp add: spec_extract_def split: if_splits)
next
  case notGet: False
  show ?thesis
  proof (cases "includesString (case contentType req of None \<Rightarrow> [] | Some c \<Rightarrow> c)
                  ''application/json''")
    case False
    with notGet assms show ?thesis
      by (auto simp add: spec_extract_def split: if_splits)
  next
    case True
    with notGet assms have
      "(case parseJson (bodyText req) of
           None \<Rightarrow> Inl ''Invalid JSON body''
         | Some payload \<Rightarrow>
             if \<not> spec_isObject payload then Inl ''JSON body must be an object''
             else
               (case spec_stringField (property payload ''data'') of
                  None \<Rightarrow> Inl ''Missing data in request body''
                | Some d \<Rightarrow>
                    if d = [] then Inl ''Missing data in request body''
                    else Inr (d, spec_bodyOptions payload (url req)))) = Inr (d, raw)"
      by (simp only: spec_extract_def if_True if_False)
    then show ?thesis
      by (cases "parseJson (bodyText req)"; simp split: if_splits option.splits)
  qed
qed

lemma buildQrResponse_calls_subset:
  "set (snd (buildQrResponse codec d options)) \<subseteq> {(d, ecc options, scale options, border options)}"
  by (simp add: buildQrResponse_def Let_def split: sum.splits)

lemma spec_pipeline_calls:
  "call \<in> set (snd (spec_pipeline codec x)) \<Longrightarrow> \<exists>d raw. x = Inr (d, raw) \<and> fst call = d"
  using buildQrResponse_calls_subset
  by (fastforce simp add: spec_pipeline_def split: sum.splits prod.splits)

lemma fetch_other_routes:
  assumes "\<not> (pathname (url req) = ''/qr'' \<and> (httpMethod req = ''GET'' \<or> httpMethod req = ''POST''))"
  shows "snd (fetch codec parseJson req e) = []"
proof -
  from assms have off:
    "(httpMethod req = ''GET'' \<and> pathname (url req) = ''/qr'') = False"
    "(httpMethod req = ''POST'' \<and> pathname (url req) = ''/qr'') = False"
    by blast+
  show ?thesis
    unfolding fetch_def off
    by (simp only: if_False if_distrib [of snd] snd_conv if_cancel)
qed

lemma fetch_calls_nonempty:
  assumes "call \<in> set (snd (fetch codec parseJson req e))"
  shows "fst call \<noteq> []"
proof (cases "pathname (url req) = ''/qr'' \<and> (httpMethod req = ''GET'' \<or> httpMethod req = ''POST'')")
  case True
  with assms have "call \<in> set (snd (spec_pipeline codec (spec_extract parseJson req)))"
    by (simp add: encoding_endpoint_pipeline)
  from spec_pipeline_calls [OF this] show ?thesis
    using spec_extract_nonempty by blast
next
  case False
  from fetch_other_routes [OF this, of codec parseJson e] assms show ?thesis by simp
qed



text \<open>
  C10. An empty payload never reaches the codec: a GET whose \<^verbatim>\<open>data\<close> parameter is present
  but empty, a POST with a JSON body whose \<^verbatim>\<open>data\<close> field is the empty string and a POST
  with an empty raw body are each answered with status 400 and a missing-data message,
  with no call of the codec; and whatever the request, no call of the codec carries an
  empty payload.
\<close>

theorem empty_payload_never_encoded:
  "(httpMethod req = ''GET'' \<and> pathname (url req) = ''/qr'' \<and> get (url req) ''data'' = Some []
      \<longrightarrow> fetch codec parseJson req e
            = (Http (badRequest ''Missing required query parameter: data''), []))
   \<and> (httpMethod req = ''POST'' \<and> pathname (url req) = ''/qr''
        \<and> contentType req = Some ct \<and> includesString ct ''application/json''
        \<and> parseJson (bodyText req) = Some (JObj props) \<and> map_of props ''data'' = Some (JStr [])
      \<longrightarrow> fetch codec parseJson req e = (Http (badRequest ''Missing data in request body''), []))
   \<and> (httpMethod req = ''POST'' \<and> pathname (url req) = ''/qr''
        \<and> (\<forall>t. contentType req = Some t \<longrightarrow> \<not> includesString t ''application/json'')
        \<and> bodyText req = []
      \<longrightarrow> fetch codec parseJson req e = (Http (badRequest ''Missing data in request body''), []))
   \<and> (\<forall>call \<in> set (snd (fetch codec parseJson req e)). fst call \<noteq> [])
   \<and> status (badRequest message) = 400"
proof (intro conjI impI ballI)
  assume "httpMethod req = ''GET'' \<and> pathname (url req) = ''/qr'' \<and> get (url req) ''data'' = Some []"
  then show "fetch codec parseJson req e
            = (Http (badRequest ''Missing required query parameter: data''), [])"
    by (simp add: encoding_endpoint_pipeline spec_pipeline_def spec_extract_def)
next
  assume "httpMethod req = ''POST'' \<and> pathname (url req) = ''/qr''
        \<and> contentType req = Some ct \<and> includesString ct ''application/json''
        \<and> parseJson (bodyText req) = Some (JObj props) \<and> map_of props ''data'' = Some (JStr [])"
  then show "fetch codec parseJson req e = (Http (badRequest ''Missing data in request body''), [])"
    by (simp add: encoding_endpoint_pipeline spec_pipeline_def spec_extract_def spec_stringField_def)
next
  assume h: "httpMethod req = ''POST'' \<and> pathname (url req) = ''/qr''
        \<and> (\<forall>t. contentType req = Some t \<longrightarrow> \<not> includesString t ''application/json'')
        \<and> bodyText req = []"
  then have "\<not> includesString (case contentType req of None \<Rightarrow> [] | Some t \<Rightarrow> t) ''application/json''"
    by (cases "contentType req") simp_all
  with h show "fetch codec parseJson req e = (Http (badRequest ''Missing data in request body''), [])"
    by (simp add: encoding_endpoint_pipeline spec_pipeline_def spec_extract_def)
next
  fix call assume "call \<in> set (snd (fetch codec parseJson req e))"
  then show "fst call \<noteq> []" by (rule fetch_calls_nonempty)
next
  show "status (badRequest message) = 400" by (rule badRequest_status)
qed

theorem empty_payload_never_encoded_witness:
  \<open>fetch svgCodec sampleParse (getRequest [(''data'', [])]) noAds
     = (Http (badRequest ''Missing required query parameter: data''), [])
   \<and> fetch svgCodec emptyDataParse
        (postRequest [] (Some ''application/json'') ''{"data":""}'') noAds
     = (Http (badRequest ''Missing data in request body''), [])
   \<and> fetch svgCodec sampleParse (postRequest [] (Some ''text/plain'') []) noAds
     = (Http (badRequest ''Missing data in request body''), [])\<close>
proof -
  have a: "httpMethod (getRequest [(''data'', [])]) = ''GET''
      \<and> pathname (url (getRequest [(''data'', [])])) = ''/qr''
      \<and> get (url (getRequest [(''data'', [])])) ''data'' = Some []"
    by (simp add: getRequest_def qrUrl_def get_def)
  have b: \<open>httpMethod (postRequest [] (Some ''application/json'') ''{"data":""}'') = ''POST''
      \<and> pathname (url (postRequest [] (Some ''application/json'') ''{"data":""}'')) = ''/qr''
      \<and> contentType (postRequest [] (Some ''application/json'') ''{"data":""}'') = Some ''application/json''
      \<and> includesString ''application/json'' ''application/json''
      \<and> emptyDataParse (bodyText (postRequest [] (Some ''application/json'') ''{"data":""}''))
           = Some (JObj [(''data'', JStr [])])
      \<and> map_of [(''data'', JStr [])] ''data'' = Some (JStr [])\<close>
    by (simp add: postRequest_def qrUrl_def emptyDataParse_def)
  have c: "httpMethod (postRequest [] (Some ''text/plain'') []) = ''POST''
      \<and> pathname (url (postRequest [] (Some ''text/plain'') [])) = ''/qr''
      \<and> (\<forall>t. contentType (postRequest [] (Some ''text/plain'') []) = Some t
             \<longrightarrow> \<not> includesString t ''application/json'')
      \<and> bodyText (postRequest [] (Some ''text/plain'') []) = []"
    by (simp add: postRequest_def qrUrl_def)
  note t = empty_payload_never_encoded
  from a have 1: "fetch svgCodec sampleParse (getRequest [(''data'', [])]) noAds
     = (Http (badRequest ''Missing required query parameter: data''), [])"
    by (rule t [THEN conjunct1, rule_format])
  from b have 2: \<open>fetch svgCodec emptyDataParse
        (postRequest [] (Some ''application/json'') ''{"data":""}'') noAds
     = (Http (badRequest ''Missing data in request body''), [])\<close>
    by (rule t [THEN conjunct2, THEN conjunct1, rule_format])
  from c have 3: "fetch svgCodec sampleParse (postRequest [] (Some ''text/plain'') []) noAds
     = (Http (badRequest ''Missing data in request body''), [])"
    by (rule t [THEN conjunct2, THEN conjunct2, THEN conjunct1, THEN mp])
  from 1 2 3 show ?thesis by (intro conjI)
qed

subsection \<open>Entity tag and codec failure\<close>










lemma encodeFailure_response:
  \<open>badRequest encodeFailureMessage =
     \<lparr>status = 400,
      headers = [(''content-type'', ''application/json; charset=utf-8''),
                 (''cache-control'', ''no-store'')],
      body = TextBody ''{"error":"Unable to encode QR for the provided input and options"}''\<rparr>\<close>
  by (simp add: badRequest_def json_def encodeFailureMessage_def quoteJSONString_def jsonEscape_def)

lemma buildQrResponse_thrown:
  assumes "length d \<le> MAX_DATA_LENGTH"
    and "codec d (ecc options) (scale options) (border options) = Inl cause"
  shows "buildQrResponse codec d options
           = (badRequest encodeFailureMessage, [(d, ecc options, scale options, border options)])"
  using assms by (simp add: buildQrResponse_def)

text \<open>
  C7. Whenever the codec throws for a payload and validated options, whatever it threw,
  the endpoint answers with one response: status 400, the JSON error object with the one
  generic message, and the headers of every JSON response. The codec was called once.
\<close>

theorem codec_failure_single_generic_400:
  assumes "pathname (url req) = ''/qr''"
    and "httpMethod req = ''GET'' \<or> httpMethod req = ''POST''"
    and "spec_extract parseJson req = Inr (d, raw)"
    and "parseOptions raw = Inr options"
    and "length d \<le> 2048"
    and "codec d (ecc options) (scale options) (border options) = Inl cause"
  shows \<open>fetch codec parseJson req e =
     (Http \<lparr>status = 400,
            headers = [(''content-type'', ''application/json; charset=utf-8''),
                       (''cache-control'', ''no-store'')],
            body = TextBody ''{"error":"Unable to encode QR for the provided input and options"}''\<rparr>,
      [(d, ecc options, scale options, border options)])\<close>
proof -
  from assms(5) have "length d \<le> MAX_DATA_LENGTH" by (simp add: MAX_DATA_LENGTH_def)
  from this assms(6) have "buildQrResponse codec d options
      = (badRequest encodeFailureMessage, [(d, ecc options, scale options, border options)])"
    by (rule buildQrResponse_thrown)
  with assms(1-4) show ?thesis
    by (simp add: encoding_endpoint_pipeline spec_pipeline_def encodeFailure_response)
qed

theorem codec_failure_single_generic_400_witness:
  \<open>throwingCodec ''hi'' ''M'' 8 4 = Inl ''code length overflow''
   \<and> fetch throwingCodec sampleParse (getRequest [(''data'', ''hi'')]) noAds =
     (Http \<lparr>status = 400,
            headers = [(''content-type'', ''application/json; charset=utf-8''),
                       (''cache-control'', ''no-store'')],
            body = TextBody ''{"error":"Unable to encode QR for the provided input and options"}''\<rparr>,
      [(''hi'', ''M'', 8, 4)])\<close>
proof -
  have route: "pathname (url (getRequest [(''data'', ''hi'')])) = ''/qr''"
    "httpMethod (getRequest [(''data'', ''hi'')]) = ''GET''
       \<or> httpMethod (getRequest [(''data'', ''hi'')]) = ''POST''"
    by (simp_all add: getRequest_def qrUrl_def)
  have ex: "spec_extract sampleParse (getRequest [(''data'', ''hi'')])
              = Inr (''hi'', \<lparr>scale = None, border = None, ecc = None\<rparr>)"
    by (simp add: spec_extract_def spec_queryOptions_def getRequest_def qrUrl_def get_def)
  have len: "length ''hi'' \<le> 2048" by simp
  have thrown: "throwingCodec d level cellSize margin = Inl ''code length overflow''"
    for d level cellSize margin
    by (simp add: throwingCodec_def)
  show ?thesis
    using codec_failure_single_generic_400
      [where codec = throwingCodec and cause = "''code length overflow''" and e = noAds,
       OF route ex default_options len thrown]
    by (simp add: thrown)
qed







lemma utf8Unit_cases:
  "(of_char c :: nat) < 128 \<and> utf8Unit c = [of_nat (of_char c)]
   \<or> \<not> (of_char c :: nat) < 128
      \<and> utf8Unit c = [of_nat (192 + of_char c div 64), of_nat (128 + of_char c mod 64)]"
  by (simp add: utf8Unit_def Let_def)













subsection \<open>Precedence, landing page and health\<close>

lemma spec_bodyOptions_cases:
  "spec_bodyOptions payload u =
     \<lparr>scale = (case property payload ''scale'' of
                  Some (JNum n) \<Rightarrow> Some n | Some (JStr s) \<Rightarrow> Some s | _ \<Rightarrow> get u ''scale''),
      border = (case property payload ''border'' of
                  Some (JNum n) \<Rightarrow> Some n | Some (JStr s) \<Rightarrow> Some s | _ \<Rightarrow> get u ''border''),
      ecc = (case property payload ''ecc'' of Some (JStr s) \<Rightarrow> Some s | _ \<Rightarrow> get u ''ecc'')\<rparr>"
  by (simp add: spec_bodyOptions_def spec_priority_def spec_numericField_def spec_stringField_def
      split: option.splits jsvalue.splits)

text \<open>
  C5. For every POST to the encoding endpoint with a JSON content type (whose body parses
  to an object with a non-empty string \<^verbatim>\<open>data\<close>), the options given to the Option Normalizer
  are, field by field: the body's \<^verbatim>\<open>scale\<close> or \<^verbatim>\<open>border\<close> when it is a number or a string,
  the body's \<^verbatim>\<open>ecc\<close> when it is a string, and the query parameter of the same name
  otherwise. With \<^verbatim>\<open>scale=4\<close> in the query and \<^verbatim>\<open>"scale": 10\<close> in the body the codec is
  called with scale 10.
\<close>

theorem body_options_take_priority:
  assumes "httpMethod req = ''POST''" and "pathname (url req) = ''/qr''"
    and "contentType req = Some ct" and "includesString ct ''application/json''"
    and "parseJson (bodyText req) = Some payload" and "spec_isObject payload"
    and "property payload ''data'' = Some (JStr d)" and "d \<noteq> []"
  shows "fetch codec parseJson req e =
     map_prod Http id
       (case parseOptions
          \<lparr>scale = (case property payload ''scale'' of
                      Some (JNum n) \<Rightarrow> Some n
                    | Some (JStr s) \<Rightarrow> Some s
                    | _ \<Rightarrow> get (url req) ''scale''),
           border = (case property payload ''border'' of
                      Some (JNum n) \<Rightarrow> Some n
                    | Some (JStr s) \<Rightarrow> Some s
                    | _ \<Rightarrow> get (url req) ''border''),
           ecc = (case property payload ''ecc'' of
                      Some (JStr s) \<Rightarrow> Some s
                    | _ \<Rightarrow> get (url req) ''ecc'')\<rparr> of
          Inl message \<Rightarrow> (badRequest message, [])
        | Inr options \<Rightarrow> buildQrResponse codec d options)"
proof -
  from assms have "spec_extract parseJson req = Inr (d, spec_bodyOptions payload (url req))"
    by (simp add: spec_extract_def spec_stringField_def)
  with assms(1,2) show ?thesis
    by (simp add: encoding_endpoint_pipeline spec_pipeline_def spec_bodyOptions_cases)
qed

theorem body_options_take_priority_witness:
  "get (url (postRequest [(''scale'', ''4'')] (Some ''application/json'') sampleDocument)) ''scale''
     = Some ''4''
   \<and> property (JObj [(''data'', JStr ''hi''), (''scale'', JNum ''10'')]) ''scale'' = Some (JNum ''10'')
   \<and> snd (fetch svgCodec sampleParse
          (postRequest [(''scale'', ''4'')] (Some ''application/json'') sampleDocument) noAds)
       = [(''hi'', ''M'', 10, 4)]"
proof -
  let ?req = "postRequest [(''scale'', ''4'')] (Some ''application/json'') sampleDocument"
  let ?payload = "JObj [(''data'', JStr ''hi''), (''scale'', JNum ''10'')]"
  have h: "httpMethod ?req = ''POST''" "pathname (url ?req) = ''/qr''"
    "contentType ?req = Some ''application/json''"
    "includesString ''application/json'' ''application/json''"
    "sampleParse (bodyText ?req) = Some ?payload" "spec_isObject ?payload"
    "property ?payload ''data'' = Some (JStr ''hi'')" "''hi'' \<noteq> []"
    by (simp_all add: postRequest_def qrUrl_def sampleParse_def)
  have q: "get (url ?req) ''scale'' = Some ''4''" "get (url ?req) ''border'' = None"
    "get (url ?req) ''ecc'' = None"
    by (simp_all add: postRequest_def qrUrl_def get_def)
  have opts: "parseOptions \<lparr>scale = Some ''10'', border = None, ecc = None\<rparr>
      = Inr \<lparr>scale = 10, border = 4, ecc = ''M''\<rparr>"
    by (simp add: option_defs)
  from body_options_take_priority
    [where req = ?req and ct = "''application/json''" and parseJson = sampleParse
       and payload = ?payload and d = "''hi''" and codec = svgCodec and e = noAds, OF h]
  have "snd (fetch svgCodec sampleParse ?req noAds) = [(''hi'', ''M'', 10, 4)]"
    by (simp add: q opts buildQrResponse_calls MAX_DATA_LENGTH_def)
  with q(1) show ?thesis by simp
qed

text \<open>
  C1. The claim: with a configuration that is only partly valid the page holds no
  third-party ad script and is the page of an absent configuration. The code gates the
  ad unit on both identifiers, but the AdSense loader script and the account meta tag on
  the client identifier alone: with a valid client and no slot the page shows the
  fallback placeholder and still loads the third-party script, unlike the page of an
  absent configuration.
\<close>

theorem partial_ad_config_loads_ad_script:
  \<open>fetch codec parseJson
      \<lparr>httpMethod = ''GET'', url = homeUrl, contentType = None, bodyText = []\<rparr> clientOnly
     = (Landing
         \<lparr>adMeta = ''<meta name="google-adsense-account" content="ca-pub-1234567890123456">'',
          adScript =
            ''<script async src="https://pagead2.googlesyndication.com/pagead/js/adsbygoogle.js?client=ca-pub-1234567890123456" crossorigin="anonymous"></script>'',
          adMarkup = fallbackAdMarkup,
          siteUrl = ''https://icanhazqrcode.example''\<rparr>, [])
   \<and> fetch codec parseJson
      \<lparr>httpMethod = ''GET'', url = homeUrl, contentType = None, bodyText = []\<rparr> noAds
     = (Landing
         \<lparr>adMeta = [], adScript = [], adMarkup = fallbackAdMarkup,
          siteUrl = ''https://icanhazqrcode.example''\<rparr>, [])\<close>
  by (simp add: fetch_def homeUrl_def clientOnly_def noAds_def landingPage_def safeAdClient_def
      safeAdSlot_def truthyString_def matchesClientPattern_def isDigit_def adsenseMetaMarkup_def
      adsenseScriptMarkup_def)

theorem partial_ad_config_loads_ad_script_witness:
  "fst (fetch svgCodec sampleParse
      \<lparr>httpMethod = ''GET'', url = homeUrl, contentType = None, bodyText = []\<rparr> clientOnly)
   \<noteq> fst (fetch svgCodec sampleParse
      \<lparr>httpMethod = ''GET'', url = homeUrl, contentType = None, bodyText = []\<rparr> noAds)"
  using partial_ad_config_loads_ad_script [of svgCodec sampleParse] by simp

text \<open>
  C3. GET /health is answered with status 200 and the JSON object that names the service
  and lists its endpoints. Its headers are those the JSON helper gives every JSON
  response, whatever the value and the status (its default, which holds the directive
  \<^verbatim>\<open>cache-control: no-store\<close>); the health response adds no caching directive of its own.
\<close>

theorem health_endpoint_response:
  \<open>fetch codec parseJson
      \<lparr>httpMethod = ''GET'',
       url = \<lparr>protocol = p, host = h, pathname = ''/health'', searchParams = q\<rparr>,
       contentType = ct, bodyText = b\<rparr> e
     = (Http healthResponse, [])
   \<and> status healthResponse = 200
   \<and> body healthResponse = TextBody
        ''{"service":"icanhazqrcode","endpoints":["GET / (landing page with QR form + optional ad slot)","GET /robots.txt","GET /sitemap.xml","GET /llms.txt","GET /qr?data=<text>&scale=8&border=4&ecc=M","POST /qr (text/plain or application/json {data, scale, border, ecc})"]}''
   \<and> headers healthResponse = headers (json v st)
   \<and> headers healthResponse
       = [(''content-type'', ''application/json; charset=utf-8''), (''cache-control'', ''no-store'')]\<close>
  by (simp add: fetch_def healthResponse_def json_def quoteJSONString_def jsonEscape_def)

end
